theory Spec2Isabelle
  imports Complex_Main "HOL-Library.Sublist"
begin
section \<open>Python values and errors\<close>

text \<open>
  Every exception the modelled code can raise is a value of \<open>py_error\<close>; a fallible
  function returns \<open>py_error + 'a\<close> with \<open>Inl\<close> carrying the exception.
\<close>

datatype py_error =
    ReError
  | KeyError string
  | IndexError
  | ZeroDivisionError
  | TypeError string
  | ValueError string
  | NameError string
  | UnboundLocalError string
  | AttributeError string
  | OverflowError string

section \<open>Shared optimization / split model (utils.py)\<close>

text \<open>
  A Haiku parameter set is a two-level dictionary: module name, then parameter name,
  then the leaf array. The leaf type is left open.
\<close>

type_synonym 'v hk_bundle = "string \<rightharpoonup> 'v"
type_synonym 'v params = "string \<rightharpoonup> 'v hk_bundle"

definition leaf :: "'v params \<Rightarrow> string \<Rightarrow> string \<Rightarrow> 'v option" where
  "leaf P m n = (case P m of None \<Rightarrow> None | Some b \<Rightarrow> b n)"








text \<open>
  \<open>merge(a, b)\<close> traverses \<open>a\<close>, then \<open>b\<close>, so a leaf of \<open>b\<close> overwrites the leaf of
  \<open>a\<close> stored under the same module and name. With the default
  \<open>check_duplicates=False\<close> no path of \<open>merge\<close> raises.
\<close>

definition hk_merge :: "'v params \<Rightarrow> 'v params \<Rightarrow> 'v params" where
  "hk_merge a b =
     (\<lambda>m. let x = (case a m of None \<Rightarrow> Map.empty | Some ba \<Rightarrow> ba);
               y = (case b m of None \<Rightarrow> Map.empty | Some bb \<Rightarrow> bb)
           in if x ++ y = Map.empty then None else Some (x ++ y))"


definition merge_params :: "'v params \<Rightarrow> 'v params \<Rightarrow> py_error + 'v params" where
  "merge_params params_old params_new = Inr (hk_merge params_old params_new)"


definition share_key :: "'v params \<Rightarrow> 'v params \<Rightarrow> bool" where
  "share_key a b = (\<exists>m n. leaf a m n \<noteq> None \<and> leaf b m n \<noteq> None)"

section \<open>Floating-point values and arrays\<close>

text \<open>
  A floating-point value is a finite number, an infinity or NaN. \<open>Fin 0\<close> is the positive
  zero and \<open>NegZero\<close> the negative zero. Nonzero finite values are idealised as reals:
  rounding is outside the model.
\<close>

datatype py_float = Fin real | NegZero | PInf | NInf | NaN

fun fl_value :: "py_float \<Rightarrow> real" where
  "fl_value (Fin a) = a"
| "fl_value x = 0"

text \<open>The IEEE comparison \<open>x <= y\<close>: false whenever an operand is NaN.\<close>

fun fl_le :: "py_float \<Rightarrow> py_float \<Rightarrow> bool" where
  "fl_le NaN y = False"
| "fl_le x NaN = False"
| "fl_le NInf y = True"
| "fl_le x PInf = True"
| "fl_le PInf y = False"
| "fl_le x NInf = False"
| "fl_le x y = (fl_value x \<le> fl_value y)"


text \<open>
  An array is a scalar (a 0-dimensional array) or a stack of arrays along its leading
  axis.
\<close>

datatype 'a ndarray = Scalar 'a | Stack "'a ndarray list"

type_synonym array = "py_float ndarray"

fun flatten :: "'a ndarray \<Rightarrow> 'a list" where
  "flatten (Scalar a) = [a]"
| "flatten (Stack xs) = concat (map flatten xs)"

text \<open>The shape of an array: the array with its elements forgotten.\<close>

definition shape_of :: "'a ndarray \<Rightarrow> unit ndarray" where
  "shape_of x = map_ndarray (\<lambda>a. ()) x"


section \<open>Parallelization (utils.py)\<close>

text \<open>
  A pytree is represented by the list of its array leaves, in the order in which JAX
  flattens it; \<open>jax.tree_util.tree_map\<close> maps over this list. No step below changes
  the structure of the tree, which is left out.
\<close>














section \<open>Targets and the scheduling policy (process_molecules_shared.py)\<close>

record SharedOptimizationConfig =
  scheduling_method :: string
  max_age :: int
  shared_modules :: "string list"

text \<open>
  The per-target record, as \<open>init_wfs\<close> leaves it: \<open>physical\<close>, \<open>fixed_params\<close>,
  \<open>unique_trainable_params\<close> and \<open>loggers\<close> are set there; \<open>mcmc_state\<close> and
  \<open>clipping_params\<close> keep their default \<open>None\<close> until \<open>optimize_shared\<close> fills them.
  The fixed parameters are a pytree of arrays, given by its leaves, and the clipping
  state is a tuple of arrays. The physical configuration, the sampler state and the logger collection
  belong to collaborators and are type parameters.
\<close>

record ('p, 's, 'l) WaveFunctionData =
  physical :: 'p
  fixed_params :: "array list"
  unique_trainable_params :: "array params"
  mcmc_state :: "'s option"
  clipping_params :: "array list option"
  checkpoints :: "int \<rightharpoonup> string"
  loggers :: 'l
  current_metrics :: "string \<rightharpoonup> array"
  n_opt_epochs :: int
  last_epoch_optimized :: int

text \<open>\<open>n % k\<close> on Python integers, for a length \<open>k\<close>.\<close>

definition py_mod_len :: "int \<Rightarrow> nat \<Rightarrow> py_error + nat" where
  "py_mod_len n k = (if k = 0 then Inl ZeroDivisionError else Inr (nat (n mod int k)))"

text \<open>
  \<open>argmax\<close> scans from the left and moves to an element only when it is not
  \<open><=\<close> the current maximum, so the first maximum wins. A NaN compares false with
  everything: the scan stops at the first NaN, which counts as maximal.
\<close>

fun argmax_loop :: "('a \<Rightarrow> 'a \<Rightarrow> bool) \<Rightarrow> ('a \<Rightarrow> bool) \<Rightarrow> 'a \<Rightarrow> nat \<Rightarrow> nat \<Rightarrow> 'a list \<Rightarrow> nat" where
  "argmax_loop le isnan mp idx i [] = idx"
| "argmax_loop le isnan mp idx i (x # xs) =
     (if \<not> le x mp then (if isnan x then i else argmax_loop le isnan x i (i + 1) xs)
      else argmax_loop le isnan mp idx (i + 1) xs)"

definition argmax :: "('a \<Rightarrow> 'a \<Rightarrow> bool) \<Rightarrow> ('a \<Rightarrow> bool) \<Rightarrow> 'a list \<Rightarrow> py_error + nat" where
  "argmax le isnan xs =
     (case xs of
        [] \<Rightarrow> Inl (ValueError ''attempt to get argmax of an empty sequence'')
      | x # r \<Rightarrow> Inr (if isnan x then 0 else argmax_loop le isnan x 0 1 r))"

definition jnp_argmax :: "int list \<Rightarrow> py_error + nat" where
  "jnp_argmax xs = argmax (\<le>) (\<lambda>x. False) xs"

text \<open>
  \<open>np.argmax\<close> of a list of arrays first builds one array from the list, which needs
  arrays of one shape, and then works on the flattened array; for the 0-dimensional
  results of \<open>jnp.nanstd\<close> that is the list of their values.
\<close>

definition np_argmax :: "array list \<Rightarrow> py_error + nat" where
  "np_argmax xs =
     (if list_all (\<lambda>x. shape_of x = shape_of (hd xs)) xs
      then argmax fl_le (\<lambda>x. x = NaN) (concat (map flatten xs))
      else Inl (ValueError ''setting an array element with a sequence''))"

text \<open>\<open>[wf.current_metrics['E_std'] for wf in wfs]\<close>: the first missing key raises.\<close>

fun collect_metric ::
  "string \<Rightarrow> ('p, 's, 'l) WaveFunctionData list \<Rightarrow> py_error + py_float ndarray list" where
  "collect_metric key [] = Inr []"
| "collect_metric key (w # wfs) =
     (case current_metrics w key of
        None \<Rightarrow> Inl (KeyError key)
      | Some v \<Rightarrow> (case collect_metric key wfs of Inl e \<Rightarrow> Inl e | Inr vs \<Rightarrow> Inr (v # vs)))"

text \<open>
  \<open>jnp.array\<close> of a list of Python integers is an array of 32-bit integers (64-bit
  mode is off by default); a value outside their range raises \<open>OverflowError\<close>. The
  array of an empty list is a floating-point array.
\<close>

definition int32_range :: "int \<Rightarrow> bool" where
  "int32_range x = (- (2 ^ 31) \<le> x \<and> x < 2 ^ 31)"

definition wrap_int32 :: "int \<Rightarrow> int" where
  "wrap_int32 x = (x + 2 ^ 31) mod 2 ^ 32 - 2 ^ 31"

definition jnp_int32_array :: "int list \<Rightarrow> py_error + int list" where
  "jnp_int32_array xs =
     (if list_all int32_range xs then Inr xs
      else Inl (OverflowError ''Python int too large to convert to int32''))"

text \<open>
  \<open>n_epoch - jnp.array([wf.last_epoch_optimized for wf in wfs])\<close>: the Python integer
  is converted to the type of the array, and the subtraction wraps around.
\<close>

definition age_array :: "int \<Rightarrow> int list \<Rightarrow> py_error + int list" where
  "age_array n_epoch epochs =
     (case jnp_int32_array epochs of
        Inl e \<Rightarrow> Inl e
      | Inr arr \<Rightarrow>
          if arr = [] then Inr []
          else if int32_range n_epoch then Inr (map (\<lambda>e. wrap_int32 (n_epoch - e)) arr)
          else Inl (OverflowError ''Python int too large to convert to int32''))"

text \<open>
  \<open>get_index\<close>. With the method \<open>stddev\<close> the ages are computed before the warm-up
  test. The comparison \<open>wf_ages > config.max_age\<close> converts \<open>max_age\<close> to the type
  of the array. The last branch executes \<open>raise ("...")\<close> with a string operand, which
  Python answers with a \<open>TypeError\<close>.
\<close>

definition get_index ::
  "int \<Rightarrow> ('p, 's, 'l) WaveFunctionData list \<Rightarrow> SharedOptimizationConfig \<Rightarrow> py_error + nat" where
  "get_index n_epoch wfs config =
     (let method = scheduling_method config in
      if method = ''round_robin'' then py_mod_len n_epoch (length wfs)
      else if method = ''stddev'' then
        (case age_array n_epoch (map last_epoch_optimized wfs) of
           Inl e \<Rightarrow> Inl e
         | Inr wf_ages \<Rightarrow>
             if n_epoch < int (length wfs) * 10 then py_mod_len n_epoch (length wfs)
             else if wf_ages \<noteq> [] \<and> \<not> int32_range (max_age config)
             then Inl (OverflowError ''Python int too large to convert to int32'')
             else if list_ex (\<lambda>age. age > max_age config) wf_ages then jnp_argmax wf_ages
             else (case collect_metric ''E_std'' wfs of
                     Inl e \<Rightarrow> Inl e
                   | Inr stddevs \<Rightarrow> np_argmax stddevs))
      else Inl (TypeError ''exceptions must derive from BaseException''))"

text \<open>
  \<open>first_max le xs i\<close>: position \<open>i\<close> holds a largest element of \<open>xs\<close> and no
  earlier position does.
\<close>

definition first_max :: "('a \<Rightarrow> 'a \<Rightarrow> bool) \<Rightarrow> 'a list \<Rightarrow> nat \<Rightarrow> bool" where
  "first_max le xs i =
     (i < length xs \<and> (\<forall>j < length xs. le (xs ! j) (xs ! i)) \<and> (\<forall>j < i. \<not> le (xs ! i) (xs ! j)))"

text \<open>\<open>first_nan xs i\<close>: position \<open>i\<close> holds the first NaN of \<open>xs\<close>.\<close>

definition first_nan :: "py_float list \<Rightarrow> nat \<Rightarrow> bool" where
  "first_nan xs i = (i < length xs \<and> xs ! i = NaN \<and> (\<forall>j < i. xs ! j \<noteq> NaN))"

section \<open>Construction of target records: class attributes and instance attributes\<close>

text \<open>
  \<open>WaveFunctionData\<close> is a \<open>@dataclass\<close> whose body annotates only \<open>mcmc_state\<close>,
  \<open>clipping_params\<close>, \<open>n_opt_epochs\<close> and \<open>last_epoch_optimized\<close>. These four are the
  dataclass fields, which the generated \<open>__init__\<close> stores in each new instance. The
  other names, among them \<open>checkpoints = {}\<close> and \<open>current_metrics = {}\<close>, are
  attributes of the class: the two dictionaries are created once, when the class body
  runs. Reading an attribute looks in the instance first and in the class second;
  assigning an attribute writes into the instance. Values that are objects are
  references into a store.
\<close>

datatype pyval = PyNone | PyInt int | PyStr string | PyRef nat

datatype pyobj = DictObj "pyval \<rightharpoonup> pyval" | InstanceObj "string \<rightharpoonup> pyval"

record py_store =
  objects :: "nat \<rightharpoonup> pyobj"
  next_ref :: nat

definition empty_store :: py_store where
  "empty_store = \<lparr>objects = Map.empty, next_ref = 0\<rparr>"

definition alloc :: "py_store \<Rightarrow> pyobj \<Rightarrow> pyval \<times> py_store" where
  "alloc s obj = (PyRef (next_ref s),
                  s\<lparr>objects := (objects s)(next_ref s \<mapsto> obj), next_ref := Suc (next_ref s)\<rparr>)"

definition WaveFunctionData_class :: "py_store \<Rightarrow> (string \<rightharpoonup> pyval) \<times> py_store" where
  "WaveFunctionData_class s =
     (let (checkpoints_default, s1) = alloc s (DictObj Map.empty);
          (current_metrics_default, s2) = alloc s1 (DictObj Map.empty)
      in ([''physical'' \<mapsto> PyNone,
           ''fixed_params'' \<mapsto> PyNone,
           ''unique_trainable_params'' \<mapsto> PyNone,
           ''mcmc_state'' \<mapsto> PyNone,
           ''clipping_params'' \<mapsto> PyNone,
           ''checkpoints'' \<mapsto> checkpoints_default,
           ''loggers'' \<mapsto> PyNone,
           ''current_metrics'' \<mapsto> current_metrics_default,
           ''n_opt_epochs'' \<mapsto> PyInt 0,
           ''last_epoch_optimized'' \<mapsto> PyInt 0], s2))"

definition WaveFunctionData_new :: "py_store \<Rightarrow> pyval \<times> py_store" where
  "WaveFunctionData_new s =
     alloc s (InstanceObj [''mcmc_state'' \<mapsto> PyNone,
                           ''clipping_params'' \<mapsto> PyNone,
                           ''n_opt_epochs'' \<mapsto> PyInt 0,
                           ''last_epoch_optimized'' \<mapsto> PyInt 0])"

definition getattr :: "py_store \<Rightarrow> (string \<rightharpoonup> pyval) \<Rightarrow> pyval \<Rightarrow> string \<Rightarrow> py_error + pyval" where
  "getattr s cls obj name =
     (case obj of
        PyRef r \<Rightarrow>
          (case objects s r of
             Some (InstanceObj attrs) \<Rightarrow>
               (case attrs name of
                  Some v \<Rightarrow> Inr v
                | None \<Rightarrow> (case cls name of Some v \<Rightarrow> Inr v | None \<Rightarrow> Inl (AttributeError name)))
           | _ \<Rightarrow> Inl (AttributeError name))
      | _ \<Rightarrow> Inl (AttributeError name))"

definition setattr :: "py_store \<Rightarrow> pyval \<Rightarrow> string \<Rightarrow> pyval \<Rightarrow> py_error + py_store" where
  "setattr s obj name v =
     (case obj of
        PyRef r \<Rightarrow>
          (case objects s r of
             Some (InstanceObj attrs) \<Rightarrow>
               Inr (s\<lparr>objects := (objects s)(r \<mapsto> InstanceObj (attrs(name \<mapsto> v)))\<rparr>)
           | _ \<Rightarrow> Inl (AttributeError name))
      | _ \<Rightarrow> Inl (AttributeError name))"

definition setitem :: "py_store \<Rightarrow> pyval \<Rightarrow> pyval \<Rightarrow> pyval \<Rightarrow> py_error + py_store" where
  "setitem s container key v =
     (case container of
        PyRef r \<Rightarrow>
          (case objects s r of
             Some (DictObj d) \<Rightarrow> Inr (s\<lparr>objects := (objects s)(r \<mapsto> DictObj (d(key \<mapsto> v)))\<rparr>)
           | _ \<Rightarrow> Inl (TypeError ''object does not support item assignment''))
      | _ \<Rightarrow> Inl (TypeError ''object does not support item assignment''))"

definition getitem :: "py_store \<Rightarrow> pyval \<Rightarrow> pyval \<Rightarrow> py_error + pyval" where
  "getitem s container key =
     (case container of
        PyRef r \<Rightarrow>
          (case objects s r of
             Some (DictObj d) \<Rightarrow> (case d key of Some v \<Rightarrow> Inr v | None \<Rightarrow> Inl (KeyError ''key''))
           | _ \<Rightarrow> Inl (TypeError ''object is not subscriptable''))
      | _ \<Rightarrow> Inl (TypeError ''object is not subscriptable''))"

section \<open>Example data\<close>

text \<open>A target with a given running stddev and last optimized epoch, and a configuration.\<close>

definition example_target :: "py_float \<Rightarrow> int \<Rightarrow> (unit, unit, unit) WaveFunctionData" where
  "example_target sd epoch =
     \<lparr>physical = (), fixed_params = [], unique_trainable_params = Map.empty,
      mcmc_state = None, clipping_params = None, checkpoints = Map.empty, loggers = (),
      current_metrics = [''E_std'' \<mapsto> Scalar sd], n_opt_epochs = 0,
      last_epoch_optimized = epoch\<rparr>"

definition example_config :: "string \<Rightarrow> SharedOptimizationConfig" where
  "example_config method = \<lparr>scheduling_method = method, max_age = 50, shared_modules = [''shared'']\<rparr>"

section \<open>Properties of split and merge\<close>



lemma leaf_hk_merge:
  "leaf (hk_merge a b) m n = (case leaf b m n of Some v \<Rightarrow> Some v | None \<Rightarrow> leaf a m n)"
proof -
  let ?x = "case a m of None \<Rightarrow> Map.empty | Some ba \<Rightarrow> ba"
  let ?y = "case b m of None \<Rightarrow> Map.empty | Some bb \<Rightarrow> bb"
  have l: "leaf (hk_merge a b) m n = (?x ++ ?y) n"
    by (cases "?x ++ ?y = Map.empty") (simp_all add: leaf_def hk_merge_def Let_def)
  have "leaf a m n = ?x n" "leaf b m n = ?y n"
    by (simp_all add: leaf_def split: option.splits)
  with l show ?thesis
    by (simp add: map_add_def split: option.splits)
qed






text \<open>
  C2 as stated does not hold: on two partitions that share the leaf \<open>m/w\<close>,
  \<open>merge_params\<close> returns normally and the first partition's value is replaced by the
  second's.
\<close>

theorem merge_params_overlap_counterexample:
  "share_key [''m'' \<mapsto> [''w'' \<mapsto> (1::int)]] [''m'' \<mapsto> [''w'' \<mapsto> (2::int)]]
   \<and> merge_params [''m'' \<mapsto> [''w'' \<mapsto> (1::int)]] [''m'' \<mapsto> [''w'' \<mapsto> (2::int)]]
       = Inr [''m'' \<mapsto> [''w'' \<mapsto> 2]]
   \<and> (\<nexists>e. merge_params [''m'' \<mapsto> [''w'' \<mapsto> (1::int)]] [''m'' \<mapsto> [''w'' \<mapsto> (2::int)]]
       = Inl e)"
proof -
  have "hk_merge [''m'' \<mapsto> [''w'' \<mapsto> (1::int)]] [''m'' \<mapsto> [''w'' \<mapsto> (2::int)]]
      = [''m'' \<mapsto> [''w'' \<mapsto> 2]]"
    by (rule ext) (simp add: hk_merge_def)
  moreover have "share_key [''m'' \<mapsto> [''w'' \<mapsto> (1::int)]] [''m'' \<mapsto> [''w'' \<mapsto> (2::int)]]"
    unfolding share_key_def leaf_def
    by (rule exI [of _ "''m''"], rule exI [of _ "''w''"]) simp
  ultimately show ?thesis by (simp add: merge_params_def)
qed

text \<open>
  C2, amended. \<open>merge_params\<close> never raises. Its result holds every leaf of the second
  argument with the second argument's value, and every other leaf of the first argument
  with the first argument's value; it holds nothing else.
\<close>

theorem merge_params_right_biased:
  "\<exists>r. merge_params a b = Inr r
      \<and> (\<forall>m n. leaf r m n = (case leaf b m n of Some v \<Rightarrow> Some v | None \<Rightarrow> leaf a m n))"
  by (simp add: merge_params_def leaf_hk_merge)

section \<open>Properties of the scheduling policy\<close>

lemma argmax_loop_first_max:
  assumes tot: "\<And>x y. x \<in> S \<Longrightarrow> y \<in> S \<Longrightarrow> le x y \<or> le y x"
    and trans: "\<And>x y z. x \<in> S \<Longrightarrow> y \<in> S \<Longrightarrow> z \<in> S \<Longrightarrow> le x y \<Longrightarrow> le y z \<Longrightarrow> le x z"
    and nonan: "\<And>x. x \<in> S \<Longrightarrow> \<not> isnan x"
  shows "set pre \<union> set xs \<subseteq> S \<Longrightarrow> first_max le pre idx \<Longrightarrow> mp = pre ! idx \<Longrightarrow> i = length pre
    \<Longrightarrow> first_max le (pre @ xs) (argmax_loop le isnan mp idx i xs)"
proof (induction xs arbitrary: pre idx mp i)
  case Nil
  then show ?case by simp
next
  case (Cons x xs)
  have xS: "x \<in> S" and preS: "set pre \<subseteq> S" using Cons.prems(1) by auto
  have idx: "idx < length pre" using Cons.prems(2) by (simp add: first_max_def)
  then have mpS: "mp \<in> S" using preS Cons.prems(3) by (auto simp: subset_iff)
  have sub: "set (pre @ [x]) \<union> set xs \<subseteq> S" using Cons.prems(1) by auto
  have len: "Suc i = length (pre @ [x])" using Cons.prems(4) by simp
  show ?case
  proof (cases "le x mp")
    case True
    have fm: "first_max le (pre @ [x]) idx"
      unfolding first_max_def
    proof (intro conjI allI impI)
      show "idx < length (pre @ [x])" using idx by simp
    next
      fix j assume "j < length (pre @ [x])"
      then consider "j < length pre" | "j = length pre" by fastforce
      then show "le ((pre @ [x]) ! j) ((pre @ [x]) ! idx)"
      proof cases
        case 1
        then show ?thesis using Cons.prems(2) idx by (simp add: first_max_def nth_append)
      next
        case 2
        then show ?thesis using True idx Cons.prems(3) by (simp add: nth_append)
      qed
    next
      fix j assume "j < idx"
      then show "\<not> le ((pre @ [x]) ! idx) ((pre @ [x]) ! j)"
        using Cons.prems(2) idx by (simp add: first_max_def nth_append)
    qed
    have "first_max le ((pre @ [x]) @ xs) (argmax_loop le isnan mp idx (Suc i) xs)"
      using Cons.IH [OF sub fm _ len] Cons.prems(3) idx by (simp add: nth_append)
    then show ?thesis using True by simp
  next
    case False
    then have mx: "le mp x" using tot [OF xS mpS] by blast
    have xx: "le x x" using tot [OF xS xS] by blast
    have fm: "first_max le (pre @ [x]) i"
      unfolding first_max_def
    proof (intro conjI allI impI)
      show "i < length (pre @ [x])" using Cons.prems(4) by simp
    next
      fix j assume "j < length (pre @ [x])"
      then consider "j < length pre" | "j = length pre" by fastforce
      then show "le ((pre @ [x]) ! j) ((pre @ [x]) ! i)"
      proof cases
        case 1
        then have "le (pre ! j) mp"
          using Cons.prems(2,3) by (simp add: first_max_def)
        moreover have "pre ! j \<in> S" using 1 preS by (auto simp: subset_iff)
        ultimately have "le (pre ! j) x" using trans mpS xS mx by blast
        then show ?thesis using 1 Cons.prems(4) by (simp add: nth_append)
      next
        case 2
        then show ?thesis using xx Cons.prems(4) by (simp add: nth_append)
      qed
    next
      fix j assume j: "j < i"
      then have jl: "j < length pre" using Cons.prems(4) by simp
      have "le (pre ! j) mp"
        using Cons.prems(2,3) jl by (simp add: first_max_def)
      moreover have "pre ! j \<in> S" using jl preS by (auto simp: subset_iff)
      ultimately have "\<not> le x (pre ! j)" using trans xS mpS False by blast
      then show "\<not> le ((pre @ [x]) ! i) ((pre @ [x]) ! j)"
        using jl Cons.prems(4) by (simp add: nth_append)
    qed
    have "first_max le ((pre @ [x]) @ xs) (argmax_loop le isnan x i (Suc i) xs)"
      using Cons.IH [OF sub fm _ len] Cons.prems(4) by (simp add: nth_append)
    then show ?thesis using False nonan [OF xS] by simp
  qed
qed

lemma argmax_first_max:
  assumes tot: "\<And>x y. x \<in> S \<Longrightarrow> y \<in> S \<Longrightarrow> le x y \<or> le y x"
    and trans: "\<And>x y z. x \<in> S \<Longrightarrow> y \<in> S \<Longrightarrow> z \<in> S \<Longrightarrow> le x y \<Longrightarrow> le y z \<Longrightarrow> le x z"
    and nonan: "\<And>x. x \<in> S \<Longrightarrow> \<not> isnan x"
    and sub: "set xs \<subseteq> S" and ne: "xs \<noteq> []"
  shows "\<exists>i. argmax le isnan xs = Inr i \<and> first_max le xs i"
proof -
  obtain x r where xs: "xs = x # r" using ne by (cases xs) auto
  have xS: "x \<in> S" using sub xs by simp
  have fm: "first_max le [x] 0" using tot [OF xS xS] by (simp add: first_max_def)
  have sb: "set [x] \<union> set r \<subseteq> S" using sub xs by simp
  have "first_max le ([x] @ r) (argmax_loop le isnan x 0 1 r)"
    by (rule argmax_loop_first_max [where S = S and pre = "[x]", OF tot trans nonan sb fm]) simp_all
  then show ?thesis using xs nonan [OF xS] by (simp add: argmax_def)
qed

lemma fl_le_total: "x \<noteq> NaN \<Longrightarrow> y \<noteq> NaN \<Longrightarrow> fl_le x y \<or> fl_le y x"
  by (cases x; cases y) auto

lemma fl_le_trans: "fl_le x y \<Longrightarrow> fl_le y z \<Longrightarrow> fl_le x z"
  by (cases x; cases y; cases z) auto

lemma jnp_argmax_first_max:
  "xs \<noteq> [] \<Longrightarrow> \<exists>i. jnp_argmax xs = Inr i \<and> first_max (\<le>) xs i"
  unfolding jnp_argmax_def
  by (rule argmax_first_max [where S = UNIV]) auto

lemma argmax_loop_first_nan:
  "NaN \<in> set xs \<Longrightarrow>
     \<exists>j. first_nan xs j \<and> argmax_loop fl_le (\<lambda>x. x = NaN) mp idx i xs = i + j"
proof (induction xs arbitrary: mp idx i)
  case Nil
  then show ?case by simp
next
  case (Cons x xs)
  show ?case
  proof (cases "x = NaN")
    case True
    then have "first_nan (x # xs) 0" by (simp add: first_nan_def)
    moreover have "argmax_loop fl_le (\<lambda>x. x = NaN) mp idx i (x # xs) = i + 0"
      using True by simp
    ultimately show ?thesis by blast
  next
    case False
    then have "NaN \<in> set xs" using Cons.prems by auto
    from Cons.IH [OF this]
    obtain j where j: "first_nan xs j"
        "argmax_loop fl_le (\<lambda>x. x = NaN) (if \<not> fl_le x mp then x else mp)
           (if \<not> fl_le x mp then i else idx) (i + 1) xs = (i + 1) + j"
      by blast
    have "first_nan (x # xs) (Suc j)"
      unfolding first_nan_def
    proof (intro conjI allI impI)
      show "Suc j < length (x # xs)" using j(1) by (simp add: first_nan_def)
      show "(x # xs) ! Suc j = NaN" using j(1) by (simp add: first_nan_def)
      fix k assume "k < Suc j"
      then show "(x # xs) ! k \<noteq> NaN"
        using j(1) False by (cases k) (simp_all add: first_nan_def)
    qed
    moreover have "argmax_loop fl_le (\<lambda>x. x = NaN) mp idx i (x # xs) = i + Suc j"
      using j(2) False by (simp split: if_splits)
    ultimately show ?thesis by blast
  qed
qed

lemma argmax_first_nan:
  assumes "NaN \<in> set xs"
  shows "\<exists>j. argmax fl_le (\<lambda>x. x = NaN) xs = Inr j \<and> first_nan xs j"
proof -
  obtain x r where xs: "xs = x # r" using assms by (cases xs) auto
  show ?thesis
  proof (cases "x = NaN")
    case True
    then show ?thesis using xs by (simp add: argmax_def first_nan_def)
  next
    case False
    then have "NaN \<in> set r" using assms xs by auto
    from argmax_loop_first_nan [OF this, of x 0 1]
    obtain j where j: "first_nan r j" "argmax_loop fl_le (\<lambda>x. x = NaN) x 0 1 r = 1 + j"
      by blast
    have "first_nan (x # r) (Suc j)"
      unfolding first_nan_def
    proof (intro conjI allI impI)
      show "Suc j < length (x # r)" using j(1) by (simp add: first_nan_def)
      show "(x # r) ! Suc j = NaN" using j(1) by (simp add: first_nan_def)
      fix k assume "k < Suc j"
      then show "(x # r) ! k \<noteq> NaN"
        using j(1) False by (cases k) (simp_all add: first_nan_def)
    qed
    then show ?thesis using xs False j(2) by (simp add: argmax_def)
  qed
qed

lemma np_argmax_scalars:
  assumes "sds \<noteq> []"
  shows "\<exists>i. np_argmax (map Scalar sds) = Inr i
     \<and> (if NaN \<in> set sds then first_nan sds i else first_max fl_le sds i)"
proof -
  have c: "concat (map flatten (map Scalar sds)) = sds"
    by (induction sds) auto
  have sh: "list_all (\<lambda>x. shape_of x = shape_of (hd (map Scalar sds))) (map Scalar sds)"
    using assms by (cases sds) (simp_all add: list_all_iff shape_of_def)
  have eq: "np_argmax (map Scalar sds) = argmax fl_le (\<lambda>x. x = NaN) sds"
    unfolding np_argmax_def c using sh by (simp only: if_True)
  show ?thesis
  proof (cases "NaN \<in> set sds")
    case True
    then show ?thesis using argmax_first_nan [OF True] eq by simp
  next
    case False
    have "\<exists>i. argmax fl_le (\<lambda>x. x = NaN) sds = Inr i \<and> first_max fl_le sds i"
    proof (rule argmax_first_max [where S = "{x. x \<noteq> NaN}"])
      show "set sds \<subseteq> {x. x \<noteq> NaN}" using False by auto
    next
      show "sds \<noteq> []" by (rule assms)
    next
      fix x y assume "x \<in> {x. x \<noteq> NaN}" "y \<in> {x. x \<noteq> NaN}"
      then show "fl_le x y \<or> fl_le y x" using fl_le_total by simp
    next
      fix x y z assume "fl_le x y" "fl_le y z"
      then show "fl_le x z" by (rule fl_le_trans)
    next
      fix x assume "x \<in> {x. x \<noteq> NaN}"
      then show "\<not> x = NaN" by simp
    qed
    then show ?thesis using False eq by simp
  qed
qed

lemma collect_metric_all:
  "map (\<lambda>w. current_metrics w key) wfs = map Some vs \<Longrightarrow> collect_metric key wfs = Inr vs"
  by (induction wfs arbitrary: vs) auto

lemma collect_metric_missing:
  "\<exists>w \<in> set wfs. current_metrics w key = None \<Longrightarrow> collect_metric key wfs = Inl (KeyError key)"
proof (induction wfs)
  case Nil
  then show ?case by simp
next
  case (Cons a wfs)
  show ?case
  proof (cases "current_metrics a key")
    case None
    then show ?thesis by simp
  next
    case (Some v)
    then have "\<exists>w \<in> set wfs. current_metrics w key = None"
      using Cons.prems by auto
    then have "collect_metric key wfs = Inl (KeyError key)" by (rule Cons.IH)
    then show ?thesis using Some by simp
  qed
qed

lemma wrap_int32_id: "0 \<le> x \<Longrightarrow> x < 2 ^ 31 \<Longrightarrow> wrap_int32 x = x"
  by (simp add: wrap_int32_def)

lemma age_array_exact:
  assumes "wfs \<noteq> []" and "n < 2 ^ 31"
    and "\<forall>w \<in> set wfs. 0 \<le> last_epoch_optimized w \<and> last_epoch_optimized w \<le> n"
  shows "age_array n (map last_epoch_optimized wfs) = Inr (map (\<lambda>w. n - last_epoch_optimized w) wfs)"
proof -
  obtain w0 where "w0 \<in> set wfs" using assms(1) by (cases wfs) auto
  then have n0: "0 \<le> n" using assms(3) by force
  have r: "list_all int32_range (map last_epoch_optimized wfs)"
    using assms(2,3) by (auto simp: list_all_iff int32_range_def)
  have w: "wrap_int32 (n - last_epoch_optimized w) = n - last_epoch_optimized w" if "w \<in> set wfs" for w
    using assms(2,3) that by (intro wrap_int32_id) auto
  have "map (\<lambda>e. wrap_int32 (n - e)) (map last_epoch_optimized wfs)
      = map (\<lambda>w. n - last_epoch_optimized w) wfs"
    unfolding map_map comp_def by (rule map_cong) (simp_all add: w)
  then show ?thesis
    using r n0 assms(1,2) by (simp add: age_array_def jnp_int32_array_def int32_range_def)
qed

text \<open>
  C4 as stated does not hold for every epoch index and target list. With a NaN among
  the running stddevs the index returned is that of the first NaN, which is not the
  largest stddev; at epoch \<open>2^31\<close> the age array cannot be built and the call raises;
  and a target without \<open>E_std\<close> makes the last branch raise.
\<close>

theorem get_index_stddev_counterexample:
  "get_index 40 [example_target (Fin 1) 39, example_target NaN 38, example_target (Fin 3) 37]
      (example_config ''stddev'') = Inr 1
   \<and> \<not> first_max fl_le [Fin 1, NaN, Fin 3] 1
   \<and> get_index (2 ^ 31) [example_target (Fin 1) 0] (example_config ''stddev'')
       = Inl (OverflowError ''Python int too large to convert to int32'')
   \<and> get_index 25 [example_target (Fin 1) 24, (example_target (Fin 3) 23)\<lparr>current_metrics := Map.empty\<rparr>]
        (example_config ''stddev'') = Inl (KeyError ''E_std'')"
proof -
  have 1: "get_index 40 [example_target (Fin 1) 39, example_target NaN 38, example_target (Fin 3) 37]
      (example_config ''stddev'') = Inr 1"
    by (simp add: get_index_def example_config_def example_target_def age_array_def
        jnp_int32_array_def int32_range_def wrap_int32_def np_argmax_def argmax_def shape_of_def)
  have "\<not> fl_le ([Fin 1, NaN, Fin 3] ! 0) ([Fin 1, NaN, Fin 3] ! 1)"
    by simp
  then have 2: "\<not> first_max fl_le [Fin 1, NaN, Fin 3] 1"
    unfolding first_max_def by (metis length_Cons zero_less_Suc)
  have 3: "get_index (2 ^ 31) [example_target (Fin 1) 0] (example_config ''stddev'')
       = Inl (OverflowError ''Python int too large to convert to int32'')"
    by (simp add: get_index_def example_config_def example_target_def age_array_def
        jnp_int32_array_def int32_range_def)
  have 4: "get_index 25 [example_target (Fin 1) 24, (example_target (Fin 3) 23)\<lparr>current_metrics := Map.empty\<rparr>]
        (example_config ''stddev'') = Inl (KeyError ''E_std'')"
    by (simp add: get_index_def example_config_def example_target_def age_array_def
        jnp_int32_array_def int32_range_def wrap_int32_def)
  from 1 2 3 4 show ?thesis by blast
qed

text \<open>
  C4, amended. The method is \<open>stddev\<close>, there is at least one target, the epoch
  index is below \<open>2^31\<close> and every target was last optimized at an epoch between 0 and
  the epoch index. Then \<open>get_index\<close> returns \<open>n mod k\<close> while \<open>n < 10 * k\<close>, as
  \<open>round_robin\<close> does. After that, with \<open>max_age\<close> a 32-bit integer: if some target's
  age \<open>n - last_epoch_optimized\<close> exceeds \<open>max_age\<close>, it returns the first index of the
  largest age; otherwise, when every target holds a scalar \<open>E_std\<close>, it returns the
  index of the first NaN among them if there is one and else the first index of the
  largest \<open>E_std\<close>; and when some target holds no \<open>E_std\<close>, it raises \<open>KeyError\<close>.
\<close>

theorem get_index_stddev:
  assumes "scheduling_method config = ''stddev''" and "wfs \<noteq> []"
    and "n < 2 ^ 31"
    and "\<forall>w \<in> set wfs. 0 \<le> last_epoch_optimized w \<and> last_epoch_optimized w \<le> n"
  shows "(n < 10 * int (length wfs) \<longrightarrow>
            get_index n wfs config = Inr (nat (n mod int (length wfs)))
          \<and> get_index n wfs config = get_index n wfs (config\<lparr>scheduling_method := ''round_robin''\<rparr>))
       \<and> (\<not> n < 10 * int (length wfs) \<and> int32_range (max_age config)
            \<and> (\<exists>w \<in> set wfs. n - last_epoch_optimized w > max_age config) \<longrightarrow>
            (\<exists>i. get_index n wfs config = Inr i
                \<and> first_max (\<le>) (map (\<lambda>w. n - last_epoch_optimized w) wfs) i))
       \<and> (\<not> n < 10 * int (length wfs) \<and> int32_range (max_age config)
            \<and> \<not> (\<exists>w \<in> set wfs. n - last_epoch_optimized w > max_age config)
            \<and> map (\<lambda>w. current_metrics w ''E_std'') wfs = map (\<lambda>s. Some (Scalar s)) sds \<longrightarrow>
            (\<exists>i. get_index n wfs config = Inr i
                \<and> (if NaN \<in> set sds then first_nan sds i else first_max fl_le sds i)))
       \<and> (\<not> n < 10 * int (length wfs) \<and> int32_range (max_age config)
            \<and> \<not> (\<exists>w \<in> set wfs. n - last_epoch_optimized w > max_age config)
            \<and> (\<exists>w \<in> set wfs. current_metrics w ''E_std'' = None) \<longrightarrow>
            get_index n wfs config = Inl (KeyError ''E_std''))"
proof -
  let ?ages = "map (\<lambda>w. n - last_epoch_optimized w) wfs"
  have ages: "age_array n (map last_epoch_optimized wfs) = Inr ?ages"
    by (rule age_array_exact [OF assms(2,3,4)])
  have ne: "?ages \<noteq> []" using assms(2) by simp
  have ex: "list_ex (\<lambda>age. age > max_age config) ?ages
      \<longleftrightarrow> (\<exists>w \<in> set wfs. n - last_epoch_optimized w > max_age config)"
    by (simp add: list_ex_iff)
  have warm: "get_index n wfs config = py_mod_len n (length wfs)" if "n < 10 * int (length wfs)"
    using that assms(1) ages by (simp add: get_index_def)
  have after: "get_index n wfs config =
      (if list_ex (\<lambda>age. age > max_age config) ?ages then jnp_argmax ?ages
       else (case collect_metric ''E_std'' wfs of Inl e \<Rightarrow> Inl e | Inr stddevs \<Rightarrow> np_argmax stddevs))"
    if "\<not> n < 10 * int (length wfs)" "int32_range (max_age config)"
    using that assms(1) ages by (simp add: get_index_def)
  show ?thesis
  proof (intro conjI impI)
    assume "n < 10 * int (length wfs)"
    then show "get_index n wfs config = Inr (nat (n mod int (length wfs)))"
      using warm assms(2) by (simp add: py_mod_len_def)
  next
    assume "n < 10 * int (length wfs)"
    then show "get_index n wfs config = get_index n wfs (config\<lparr>scheduling_method := ''round_robin''\<rparr>)"
      using warm by (simp add: get_index_def)
  next
    assume a: "\<not> n < 10 * int (length wfs) \<and> int32_range (max_age config)
            \<and> (\<exists>w \<in> set wfs. n - last_epoch_optimized w > max_age config)"
    then have "get_index n wfs config = jnp_argmax ?ages"
      using after ex by simp
    then show "\<exists>i. get_index n wfs config = Inr i \<and> first_max (\<le>) ?ages i"
      using jnp_argmax_first_max [OF ne] by simp
  next
    assume a: "\<not> n < 10 * int (length wfs) \<and> int32_range (max_age config)
            \<and> \<not> (\<exists>w \<in> set wfs. n - last_epoch_optimized w > max_age config)
            \<and> map (\<lambda>w. current_metrics w ''E_std'') wfs = map (\<lambda>s. Some (Scalar s)) sds"
    then have "map (\<lambda>w. current_metrics w ''E_std'') wfs = map Some (map Scalar sds)" by simp
    then have c: "collect_metric ''E_std'' wfs = Inr (map Scalar sds)" by (rule collect_metric_all)
    have "length (map (\<lambda>w. current_metrics w ''E_std'') wfs) = length (map (\<lambda>s. Some (Scalar s)) sds)"
      using a by simp
    then have "length wfs = length sds" by simp
    then have nes: "sds \<noteq> []" using assms(2) by auto
    have "get_index n wfs config = np_argmax (map Scalar sds)"
      using after a ex c by simp
    then show "\<exists>i. get_index n wfs config = Inr i
        \<and> (if NaN \<in> set sds then first_nan sds i else first_max fl_le sds i)"
      using np_argmax_scalars [OF nes] by simp
  next
    assume a: "\<not> n < 10 * int (length wfs) \<and> int32_range (max_age config)
            \<and> \<not> (\<exists>w \<in> set wfs. n - last_epoch_optimized w > max_age config)
            \<and> (\<exists>w \<in> set wfs. current_metrics w ''E_std'' = None)"
    then have "collect_metric ''E_std'' wfs = Inl (KeyError ''E_std'')"
      by (intro collect_metric_missing) simp
    then show "get_index n wfs config = Inl (KeyError ''E_std'')"
      using after a ex by simp
  qed
qed

theorem get_index_stddev_witness:
  "get_index 3 [example_target (Fin 1) 2, example_target (Fin 3) 1] (example_config ''stddev'') = Inr 1
   \<and> (\<exists>i. get_index 100 [example_target (Fin 1) 24, example_target (Fin 3) 23] (example_config ''stddev'') = Inr i
          \<and> first_max (\<le>) [76::int, 77] i)
   \<and> (\<exists>i. get_index 25 [example_target (Fin 1) 24, example_target (Fin 3) 23] (example_config ''stddev'') = Inr i
          \<and> first_max fl_le [Fin 1, Fin 3] i)
   \<and> (\<exists>i. get_index 25 [example_target NaN 24, example_target (Fin 3) 23] (example_config ''stddev'') = Inr i
          \<and> first_nan [NaN, Fin 3] i)"
proof -
  have c: "scheduling_method (example_config ''stddev'') = ''stddev''"
    by (simp add: example_config_def)
  have "get_index 3 [example_target (Fin 1) 2, example_target (Fin 3) 1] (example_config ''stddev'') = Inr 1"
    using get_index_stddev [OF c, of "[example_target (Fin 1) 2, example_target (Fin 3) 1]" 3 "[]"]
    by (simp add: example_target_def)
  moreover have "\<exists>i. get_index 100 [example_target (Fin 1) 24, example_target (Fin 3) 23] (example_config ''stddev'') = Inr i
          \<and> first_max (\<le>) [76::int, 77] i"
    using get_index_stddev [OF c, of "[example_target (Fin 1) 24, example_target (Fin 3) 23]" 100 "[]"]
    by (simp add: example_target_def example_config_def int32_range_def)
  moreover have "\<exists>i. get_index 25 [example_target (Fin 1) 24, example_target (Fin 3) 23] (example_config ''stddev'') = Inr i
          \<and> first_max fl_le [Fin 1, Fin 3] i"
    using get_index_stddev [OF c, of "[example_target (Fin 1) 24, example_target (Fin 3) 23]" 25 "[Fin 1, Fin 3]"]
    by (simp add: example_target_def example_config_def int32_range_def)
  moreover have "\<exists>i. get_index 25 [example_target NaN 24, example_target (Fin 3) 23] (example_config ''stddev'') = Inr i
          \<and> first_nan [NaN, Fin 3] i"
    using get_index_stddev [OF c, of "[example_target NaN 24, example_target (Fin 3) 23]" 25 "[NaN, Fin 3]"]
    by (simp add: example_target_def example_config_def int32_range_def)
  ultimately show ?thesis by simp
qed

text \<open>
  C9 as stated does not hold: for the method \<open>foo\<close> the error raised is the
  \<open>TypeError\<close> of a \<open>raise\<close> with a string operand, and its message does not contain
  \<open>foo\<close>.
\<close>

theorem get_index_unsupported_counterexample:
  "get_index 0 [example_target (Fin 1) 0] (example_config ''foo'')
     = Inl (TypeError ''exceptions must derive from BaseException'')
   \<and> \<not> sublist ''foo'' ''exceptions must derive from BaseException''"
proof -
  have "\<not> sublist ''foo'' ''exceptions must derive from BaseException''"
    by code_simp
  then show ?thesis by (simp add: get_index_def example_config_def)
qed

text \<open>
  C9, amended. For every scheduling method other than \<open>round_robin\<close> and \<open>stddev\<close>,
  \<open>get_index\<close> raises an error and returns no index.
\<close>

theorem get_index_unsupported:
  assumes "scheduling_method config \<noteq> ''round_robin''" and "scheduling_method config \<noteq> ''stddev''"
  shows "\<exists>e. get_index n wfs config = Inl e"
  using assms by (simp add: get_index_def)

theorem get_index_unsupported_witness:
  "\<exists>e. get_index 0 [example_target (Fin 1) 0] (example_config ''foo'') = Inl e"
  using get_index_unsupported [of "example_config ''foo''" 0 "[example_target (Fin 1) 0]"]
  by (simp add: example_config_def)

section \<open>Properties of the replication across devices\<close>
















section \<open>Properties of the construction of target records\<close>

lemma setattr_other_target:
  assumes "setattr s (PyRef r1) name v = Inr s'" and "r1 \<noteq> r2"
  shows "getattr s' cls (PyRef r2) name' = getattr s cls (PyRef r2) name'"
  using assms
  by (auto simp: setattr_def getattr_def split: option.splits pyobj.splits)

text \<open>
  C10 fails on the code. After the class body has run and two records have been
  constructed, the records are distinct objects, but \<open>checkpoints\<close> is the same
  dictionary (reference 0) for both, and so is \<open>current_metrics\<close> (reference 1): an
  entry stored through the first record's \<open>checkpoints\<close> is read through the second's.
\<close>

theorem default_containers_shared:
  "(case WaveFunctionData_class empty_store of (cls, s0) \<Rightarrow>
    case WaveFunctionData_new s0 of (wf1, s1) \<Rightarrow>
    case WaveFunctionData_new s1 of (wf2, s2) \<Rightarrow>
        wf1 \<noteq> wf2
      \<and> getattr s2 cls wf1 ''checkpoints'' = Inr (PyRef 0)
      \<and> getattr s2 cls wf2 ''checkpoints'' = Inr (PyRef 0)
      \<and> getattr s2 cls wf1 ''current_metrics'' = Inr (PyRef 1)
      \<and> getattr s2 cls wf2 ''current_metrics'' = Inr (PyRef 1)
      \<and> getitem s2 (PyRef 0) (PyInt 100) = Inl (KeyError ''key'')
      \<and> (case setitem s2 (PyRef 0) (PyInt 100) (PyStr ''chkpt'') of
            Inl e \<Rightarrow> False
          | Inr s3 \<Rightarrow> getattr s3 cls wf2 ''checkpoints'' = Inr (PyRef 0)
                    \<and> getitem s3 (PyRef 0) (PyInt 100) = Inr (PyStr ''chkpt'')))"
  by (simp add: WaveFunctionData_class_def empty_store_def alloc_def getattr_def
      WaveFunctionData_new_def setitem_def getitem_def)

end
